theory Spec2Isabelle
  imports Complex_Main "HOL-Library.Char_ord" "HOL-Library.List_Lexorder" "HOL-Library.AList"
begin

section \<open>Shared data\<close>

text \<open>
  Failures of the TypeScript code are values: \<open>TypeError\<close> is what reading a property of
  \<open>undefined\<close> raises, \<open>Thrown msg\<close> is an exception raised by one of the imported
  services or libraries.
\<close>

datatype error = TypeError | Thrown string

text \<open>\<open>TokenInfo\<close> (\<open>@/types/TokenList\<close>): the two fields the code reads.\<close>

record TokenInfo =
  symbol :: string
  decimals :: nat

text \<open>
  What both composables take from \<open>useTokens\<close>: the token registry, the balance of
  the connected account per token address (a decimal string), and the native asset of the
  network with the amount held back for gas.
\<close>

record NativeAsset =
  address :: string
  minTransactionBuffer :: string

record Tokens =
  getToken :: "string \<Rightarrow> TokenInfo option"
  balanceFor :: "string \<Rightarrow> string"
  nativeAsset :: NativeAsset

section \<open>JavaScript numbers\<close>

text \<open>
  A JavaScript number is an IEEE double: not a number, an infinity, or a finite value, kept
  here as the rational it denotes. Negative zero is not told apart from zero. \<open>x || 0\<close>
  replaces the falsy numbers, zero and \<open>NaN\<close>.
\<close>

datatype number = NaN | PosInfinity | NegInfinity | Finite rat

fun falsy :: "number \<Rightarrow> bool" where
  "falsy NaN = True"
| "falsy (Finite x) = (x = 0)"
| "falsy n = False"

text \<open>
  The result of an addition is the exact sum rounded to the nearest double, a tie going to
  the even significand. A double has 53 significant bits and a binary exponent between
  -1022 and 1023: \<open>exponent a\<close> is the exponent of the binade of \<open>a > 0\<close> within that
  range, the doubles around \<open>a\<close> are the multiples of \<open>2 powi (exponent a - 52)\<close>, and a
  rounded magnitude of \<open>2 powi 1024\<close> or more overflows to an infinity.
\<close>

fun exp_up :: "nat \<Rightarrow> int \<Rightarrow> rat \<Rightarrow> int" where
  "exp_up 0 e a = e"
| "exp_up (Suc n) e a = (if 2 powi (e + 1) \<le> a then exp_up n (e + 1) a else e)"

fun exp_down :: "nat \<Rightarrow> int \<Rightarrow> rat \<Rightarrow> int" where
  "exp_down 0 e a = e"
| "exp_down (Suc n) e a = (if 2 powi e \<le> a then e else exp_down n (e - 1) a)"

definition exponent :: "rat \<Rightarrow> int" where
  "exponent a = (if 1 \<le> a then exp_up 1023 0 a else exp_down 1021 (- 1) a)"

definition round_ties_even :: "rat \<Rightarrow> int" where
  "round_ties_even q =
     (if q - of_int \<lfloor>q\<rfloor> < 1 / 2 then \<lfloor>q\<rfloor>
      else if 1 / 2 < q - of_int \<lfloor>q\<rfloor> then \<lfloor>q\<rfloor> + 1
      else if even \<lfloor>q\<rfloor> then \<lfloor>q\<rfloor> else \<lfloor>q\<rfloor> + 1)"

definition to_double :: "rat \<Rightarrow> number" where
  "to_double r =
     (if r = 0 then Finite 0
      else let a = \<bar>r\<bar>;
               u = 2 powi (exponent a - 52);
               m = of_int (round_ties_even (a / u)) * u
           in if 2 powi 1024 \<le> m then (if 0 < r then PosInfinity else NegInfinity)
              else Finite (if 0 < r then m else - m))"

fun js_add :: "number \<Rightarrow> number \<Rightarrow> number" where
  "js_add (Finite x) (Finite y) = to_double (x + y)"
| "js_add NaN b = NaN"
| "js_add a NaN = NaN"
| "js_add PosInfinity NegInfinity = NaN"
| "js_add NegInfinity PosInfinity = NaN"
| "js_add PosInfinity b = PosInfinity"
| "js_add NegInfinity b = NegInfinity"
| "js_add (Finite x) b = b"

section \<open>The pool-creation wizard (\<open>usePoolCreation.ts\<close>)\<close>

text \<open>
  The weights, amounts and ids of a token weight are finite numbers, kept as the rationals
  and integers they denote.
\<close>

record TokenWeight =
  tokenAddress :: string
  weight :: rat
  isLocked :: bool
  amount :: rat
  id_tw :: int

text \<open>
  The declared literal types. TypeScript erases them: at run time each of these fields holds
  a string, so the state record stores strings and the declared value sets are kept as lists.
\<close>

definition FeeManagementType :: "string list" where
  "FeeManagementType = [''governance'', ''self'']"

definition FeeType :: "string list" where
  "FeeType = [''fixed'', ''dynamic'']"

definition FeeController :: "string list" where
  "FeeController = [''self'', ''other'']"

definition CreateState :: "string list" where
  "CreateState = [''none'', ''creating'', ''created'', ''failed'']"

definition JoinState :: "string list" where
  "JoinState = [''non'', ''joining'', ''joined'', ''failed'']"

record PoolCreationState =
  name :: string
  tokenWeights :: "TokenWeight list"
  activeStep :: number
  initialFee :: string
  isFeeGovManaged :: bool
  feeManagementType :: string
  feeType :: string
  feeController :: string
  thirdPartyFeeController :: string
  fee :: string
  tokensList :: "string list"
  poolId :: string
  poolAddress :: string
  createState :: string
  joinState :: string

text \<open>The module-level reactive object, as the module initialises it.\<close>

definition poolCreationState :: PoolCreationState where
  "poolCreationState =
     \<lparr> name = ''MyPool'',
       tokenWeights = [],
       activeStep = Finite 0,
       initialFee = ''0'',
       isFeeGovManaged = False,
       feeManagementType = ''governance'',
       feeType = ''fixed'',
       feeController = ''self'',
       thirdPartyFeeController = [],
       fee = ''0'',
       tokensList = [],
       poolId = [],
       poolAddress = [],
       createState = ''none'',
       joinState = ''none'' \<rparr>"

text \<open>
  What the composable takes from its surroundings besides \<open>useTokens\<close>: the run time's
  \<open>Array.prototype.sort\<close> (which takes the comparator), \<open>scale\<close> of \<open>@/lib/utils\<close>,
  the translation function \<open>t\<close>, the transaction notifier and the connected account. The
  provider handle is passed to the service calls unchanged and is left out.
\<close>

record Tx =
  hash :: string

record PoolDetails =
  pd_id :: string
  pd_address :: string

record NewTransaction =
  tx_id :: string
  tx_type :: string
  tx_action :: string
  tx_summary :: string
  tx_details_name :: "string option"

record CreationEnv = Tokens +
  array_sort :: "(TokenWeight \<Rightarrow> TokenWeight \<Rightarrow> int) \<Rightarrow> TokenWeight list \<Rightarrow> TokenWeight list"
  scale :: "rat \<Rightarrow> nat \<Rightarrow> rat"
  i18n_t :: "string \<Rightarrow> string"
  addTransaction :: "NewTransaction \<Rightarrow> error + unit"
  account :: string

subsection \<open>Number and string helpers\<close>

definition digit_char :: "int \<Rightarrow> char" where
  "digit_char i = ''0123456789'' ! nat (i mod 10)"

function show_digits :: "int \<Rightarrow> string" where
  "show_digits i = (if i < 10 then [digit_char i] else show_digits (i div 10) @ [digit_char i])"
  by pat_completeness auto
termination
  by (relation "measure nat") auto

declare show_digits.simps [simp del]

text \<open>
  The decimal text of an integer, as \<open>toString\<close> of an ethers \<open>BigNumber\<close> prints it,
  and a template string for an integral number (below the size where JavaScript switches to
  exponent notation).
\<close>

definition show_int :: "int \<Rightarrow> string" where
  "show_int i = (if i < 0 then CHR ''-'' # show_digits (- i) else show_digits i)"

text \<open>\<open>Math.round\<close>: the nearest integer, halves rounded up.\<close>

definition Math_round :: "rat \<Rightarrow> int" where
  "Math_round x = \<lfloor>x + 1 / 2\<rfloor>"

fun join :: "string \<Rightarrow> string list \<Rightarrow> string" where
  "join sep [] = []"
| "join sep [x] = x"
| "join sep (x # y # ys) = x @ sep @ join sep (y # ys)"

text \<open>A \<open>map\<close> whose callback may throw stops at the first exception.\<close>

fun map_throwing :: "('a \<Rightarrow> error + 'b) \<Rightarrow> 'a list \<Rightarrow> error + 'b list" where
  "map_throwing f [] = Inr []"
| "map_throwing f (x # xs) =
     (case f x of
        Inl e \<Rightarrow> Inl e
      | Inr y \<Rightarrow> (case map_throwing f xs of Inl e \<Rightarrow> Inl e | Inr ys \<Rightarrow> Inr (y # ys)))"

subsection \<open>The synchronous operations\<close>

definition watch_tokenWeights :: "PoolCreationState \<Rightarrow> PoolCreationState" where
  "watch_tokenWeights s = s\<lparr>tokensList := map tokenAddress (tokenWeights s)\<rparr>"

definition updateTokenWeights :: "TokenWeight list \<Rightarrow> PoolCreationState \<Rightarrow> PoolCreationState" where
  "updateTokenWeights weights s = s\<lparr>tokenWeights := weights\<rparr>"

definition compareTokenWeights :: "TokenWeight \<Rightarrow> TokenWeight \<Rightarrow> int" where
  "compareTokenWeights tokenA tokenB =
     (if tokenAddress tokenA > tokenAddress tokenB then 1 else - 1)"

definition sortTokenWeights :: "CreationEnv \<Rightarrow> PoolCreationState \<Rightarrow> PoolCreationState" where
  "sortTokenWeights env s =
     s\<lparr>tokenWeights := array_sort env compareTokenWeights (tokenWeights s)\<rparr>"

definition proceed :: "PoolCreationState \<Rightarrow> PoolCreationState" where
  "proceed s = s\<lparr>activeStep := js_add (activeStep s) (Finite 1)\<rparr>"

definition setFeeManagement :: "string \<Rightarrow> PoolCreationState \<Rightarrow> PoolCreationState" where
  "setFeeManagement type' s = s\<lparr>feeManagementType := type'\<rparr>"

definition setFeeType :: "string \<Rightarrow> PoolCreationState \<Rightarrow> PoolCreationState" where
  "setFeeType type' s = s\<lparr>feeType := type'\<rparr>"

definition setStep :: "number \<Rightarrow> PoolCreationState \<Rightarrow> PoolCreationState" where
  "setStep step s = s\<lparr>activeStep := Finite 0\<rparr>"

definition setFeeController :: "string \<Rightarrow> PoolCreationState \<Rightarrow> PoolCreationState" where
  "setFeeController controller s = s\<lparr>feeController := controller\<rparr>"

definition setTrpController :: "string \<Rightarrow> PoolCreationState \<Rightarrow> PoolCreationState" where
  "setTrpController address' s = s\<lparr>thirdPartyFeeController := address'\<rparr>"

definition getScaledAmounts :: "CreationEnv \<Rightarrow> PoolCreationState \<Rightarrow> error + rat list" where
  "getScaledAmounts env s =
     map_throwing
       (\<lambda>token. case getToken env (tokenAddress token) of
                   None \<Rightarrow> Inl TypeError
                 | Some tokenInfo \<Rightarrow> Inr (scale env (amount token) (decimals tokenInfo)))
       (tokenWeights s)"

definition getPoolSymbol :: "CreationEnv \<Rightarrow> PoolCreationState \<Rightarrow> error + string" where
  "getPoolSymbol env s =
     (case map_throwing
        (\<lambda>token.
           let weightRounded = Math_round (weight token) in
           case getToken env (tokenAddress token) of
             None \<Rightarrow> Inl TypeError
           | Some tokenInfo \<Rightarrow>
               Inr (show_int (Math_round (of_int weightRounded)) @ symbol tokenInfo))
        (tokenWeights s)
      of Inl e \<Rightarrow> Inl e
       | Inr tokenSymbols \<Rightarrow> Inr (join ''-'' tokenSymbols))"

subsection \<open>Creating and joining a pool\<close>

text \<open>
  \<open>createPool\<close> and \<open>joinPool\<close> are asynchronous: each runs up to its \<open>await\<close> of
  the service call, resumes when that call settles, and leaves two callbacks with the
  transaction listener. Other operations can run in between, so each stretch is a function
  of the state it finds. A stretch returns the state it leaves and what it hands on: the
  arguments of the service call, or the transaction the listener now watches; \<open>None\<close>
  when the \<open>catch\<close> block ended the operation.
\<close>

record CreateArgs =
  ca_name :: string
  ca_symbol :: string
  ca_swapFee :: string
  ca_tokens :: "TokenWeight list"
  ca_owner :: string

definition AddressZero :: string where
  "AddressZero = ''0x0000000000000000000000000000000000000000''"

definition createPool_submit ::
  "CreationEnv \<Rightarrow> PoolCreationState \<Rightarrow> CreateArgs option \<times> PoolCreationState" where
  "createPool_submit env s0 =
     (let s1 = sortTokenWeights env s0;
          s2 = s1\<lparr>createState := ''creating''\<rparr>
      in case getPoolSymbol env s2 of
           Inl e \<Rightarrow> (None, s2\<lparr>createState := ''failed''\<rparr>)
         | Inr poolSymbol \<Rightarrow>
             (Some \<lparr> ca_name = name s2, ca_symbol = poolSymbol, ca_swapFee = ''0.01'',
                      ca_tokens = tokenWeights s2, ca_owner = AddressZero \<rparr>, s2))"

definition createPool_submitted ::
  "CreationEnv \<Rightarrow> error + Tx \<Rightarrow> PoolCreationState \<Rightarrow> Tx option \<times> PoolCreationState" where
  "createPool_submitted env r s =
     (case r of
        Inl e \<Rightarrow> (None, s\<lparr>createState := ''failed''\<rparr>)
      | Inr tx \<Rightarrow>
          (case addTransaction env
                  \<lparr> tx_id = hash tx, tx_type = ''tx'', tx_action = ''createpool'',
                    tx_summary = i18n_t env ''transactionSummary.createPool'',
                    tx_details_name = Some (name s) \<rparr> of
             Inl e \<Rightarrow> (None, s\<lparr>createState := ''failed''\<rparr>)
           | Inr u \<Rightarrow> (Some tx, s)))"

text \<open>
  The confirmation callback awaits the pool details first; when that call throws, nothing
  is written.
\<close>

definition createPool_onTxConfirmed ::
  "error + PoolDetails \<Rightarrow> PoolCreationState \<Rightarrow> PoolCreationState" where
  "createPool_onTxConfirmed r s =
     (case r of
        Inl e \<Rightarrow> s
      | Inr poolDetails \<Rightarrow>
          s\<lparr>poolId := pd_id poolDetails,
            poolAddress := pd_address poolDetails,
            createState := ''created''\<rparr>)"

definition createPool_onTxFailed :: "PoolCreationState \<Rightarrow> PoolCreationState" where
  "createPool_onTxFailed s = s\<lparr>createState := ''failed''\<rparr>"

record JoinArgs =
  ja_poolId :: string
  ja_sender :: string
  ja_receiver :: string
  ja_tokens :: "TokenWeight list"
  ja_amounts :: "rat list"

definition joinPool_submit ::
  "CreationEnv \<Rightarrow> PoolCreationState \<Rightarrow> JoinArgs option \<times> PoolCreationState" where
  "joinPool_submit env s0 =
     (let s1 = sortTokenWeights env s0;
          s2 = s1\<lparr>joinState := ''joining''\<rparr>
      in case getScaledAmounts env s2 of
           Inl e \<Rightarrow> (None, s2\<lparr>joinState := ''failed''\<rparr>)
         | Inr scaledAmounts \<Rightarrow>
             (Some \<lparr> ja_poolId = poolId s2, ja_sender = account env, ja_receiver = account env,
                      ja_tokens = tokenWeights s2, ja_amounts = scaledAmounts \<rparr>, s2))"

definition joinPool_submitted ::
  "CreationEnv \<Rightarrow> error + Tx \<Rightarrow> PoolCreationState \<Rightarrow> Tx option \<times> PoolCreationState" where
  "joinPool_submitted env r s =
     (case r of
        Inl e \<Rightarrow> (None, s\<lparr>joinState := ''failed''\<rparr>)
      | Inr tx \<Rightarrow>
          (case addTransaction env
                  \<lparr> tx_id = hash tx, tx_type = ''tx'', tx_action = ''invest'',
                    tx_summary = i18n_t env ''transactionSummary.investInPool'',
                    tx_details_name = None \<rparr> of
             Inl e \<Rightarrow> (None, s\<lparr>joinState := ''failed''\<rparr>)
           | Inr u \<Rightarrow> (Some tx, s)))"

definition joinPool_onTxConfirmed :: "PoolCreationState \<Rightarrow> PoolCreationState" where
  "joinPool_onTxConfirmed s = s\<lparr>joinState := ''joined''\<rparr>"

definition joinPool_onTxFailed :: "PoolCreationState \<Rightarrow> PoolCreationState" where
  "joinPool_onTxFailed s = s\<lparr>joinState := ''failed''\<rparr>"

subsection \<open>The states of the wizard\<close>

text \<open>
  The states that the operations of the composable produce from the initial one, in any
  order: the watcher of \<open>tokenWeights\<close>, the setters, and the stretches and callbacks of
  \<open>createPool\<close> and \<open>joinPool\<close> with any outcome of the service calls.
\<close>

inductive reachable :: "CreationEnv \<Rightarrow> PoolCreationState \<Rightarrow> bool" for env where
  initial: "reachable env poolCreationState"
| watcher: "reachable env s \<Longrightarrow> reachable env (watch_tokenWeights s)"
| updateTokenWeights: "reachable env s \<Longrightarrow> reachable env (updateTokenWeights weights s)"
| proceed: "reachable env s \<Longrightarrow> reachable env (proceed s)"
| setFeeManagement: "reachable env s \<Longrightarrow> reachable env (setFeeManagement ty s)"
| setFeeType: "reachable env s \<Longrightarrow> reachable env (setFeeType ty s)"
| setStep: "reachable env s \<Longrightarrow> reachable env (setStep step s)"
| setFeeController: "reachable env s \<Longrightarrow> reachable env (setFeeController controller s)"
| setTrpController: "reachable env s \<Longrightarrow> reachable env (setTrpController a s)"
| createPool_submit: "reachable env s \<Longrightarrow> reachable env (snd (createPool_submit env s))"
| createPool_submitted: "reachable env s \<Longrightarrow> reachable env (snd (createPool_submitted env r s))"
| createPool_onTxConfirmed: "reachable env s \<Longrightarrow> reachable env (createPool_onTxConfirmed d s)"
| createPool_onTxFailed: "reachable env s \<Longrightarrow> reachable env (createPool_onTxFailed s)"
| joinPool_submit: "reachable env s \<Longrightarrow> reachable env (snd (joinPool_submit env s))"
| joinPool_submitted: "reachable env s \<Longrightarrow> reachable env (snd (joinPool_submitted env r s))"
| joinPool_onTxConfirmed: "reachable env s \<Longrightarrow> reachable env (joinPool_onTxConfirmed s)"
| joinPool_onTxFailed: "reachable env s \<Longrightarrow> reachable env (joinPool_onTxFailed s)"

section \<open>The invest form (\<open>useInvestFormMath\<close>)\<close>

subsection \<open>Numbers and arrays of the run time\<close>

text \<open>
  A value of bignumber.js, the library behind \<open>bnum\<close>: not a number, an infinity, or a
  finite decimal. \<open>gt\<close> is false as soon as one side is not a number. \<open>gt\<close> and
  \<open>minus\<close> read a string argument the way \<open>bnum\<close> reads it, and the number \<open>0\<close>
  as zero.
\<close>

datatype BigNumber = BNaN | BPosInf | BNegInf | BFin rat

fun bn_gt :: "BigNumber \<Rightarrow> BigNumber \<Rightarrow> bool" where
  "bn_gt (BFin x) (BFin y) = (y < x)"
| "bn_gt BPosInf (BFin y) = True"
| "bn_gt BPosInf BNegInf = True"
| "bn_gt (BFin x) BNegInf = True"
| "bn_gt a b = False"

fun bn_minus :: "BigNumber \<Rightarrow> BigNumber \<Rightarrow> BigNumber" where
  "bn_minus (BFin x) (BFin y) = BFin (x - y)"
| "bn_minus BNaN b = BNaN"
| "bn_minus a BNaN = BNaN"
| "bn_minus BPosInf BPosInf = BNaN"
| "bn_minus BNegInf BNegInf = BNaN"
| "bn_minus BPosInf b = BPosInf"
| "bn_minus BNegInf b = BNegInf"
| "bn_minus (BFin x) BPosInf = BNegInf"
| "bn_minus (BFin x) BNegInf = BPosInf"

text \<open>Reading an array at an index: \<open>undefined\<close> past the end.\<close>

definition js_read :: "'a list \<Rightarrow> nat \<Rightarrow> 'a option" where
  "js_read xs i = (if i < length xs then Some (xs ! i) else None)"

text \<open>
  The \<open>amounts\<close> array holds strings, but an entry can be missing or \<open>null\<close> (the
  source says so above \<open>fullAmounts\<close>): such an entry is \<open>None\<close>. Writing past the end
  extends the array, leaving holes.
\<close>

definition js_write :: "'a option list \<Rightarrow> nat \<Rightarrow> 'a \<Rightarrow> 'a option list" where
  "js_write xs i v =
     (if i < length xs then xs[i := Some v]
      else xs @ replicate (i - length xs) None @ [Some v])"

text \<open>\<open>x || d\<close> on a string that may be missing: the empty string is falsy too.\<close>

definition or_default :: "string option \<Rightarrow> string \<Rightarrow> string" where
  "or_default x d = (case x of None \<Rightarrow> d | Some v \<Rightarrow> if v = [] then d else v)"

text \<open>The callbacks of \<open>map\<close>, \<open>every\<close> and \<open>forEach\<close> get the element and its index.\<close>

definition indexed :: "'a list \<Rightarrow> ('a \<times> nat) list" where
  "indexed xs = zip xs [0..<length xs]"

fun findIndexFrom :: "nat \<Rightarrow> ('a \<Rightarrow> nat \<Rightarrow> bool) \<Rightarrow> 'a list \<Rightarrow> int" where
  "findIndexFrom i p [] = - 1"
| "findIndexFrom i p (x # xs) = (if p x i then int i else findIndexFrom (Suc i) p xs)"

definition findIndex :: "('a \<Rightarrow> nat \<Rightarrow> bool) \<Rightarrow> 'a list \<Rightarrow> int" where
  "findIndex p xs = findIndexFrom 0 p xs"

text \<open>\<open>toLowerCase\<close> on the ASCII letters; every other byte is kept.\<close>

definition toLowerCase_char :: "char \<Rightarrow> char" where
  "toLowerCase_char c =
     (case map_of (zip ''ABCDEFGHIJKLMNOPQRSTUVWXYZ'' ''abcdefghijklmnopqrstuvwxyz'') c of
        None \<Rightarrow> c
      | Some l \<Rightarrow> l)"

definition toLowerCase :: "string \<Rightarrow> string" where
  "toLowerCase s = map toLowerCase_char s"

text \<open>
  An object used as a dictionary keeps its keys in insertion order; assigning to a key it
  has keeps the key's place. \<open>Object.fromEntries\<close> assigns the entries in order.
\<close>

definition Object_fromEntries :: "(string \<times> 'v) list \<Rightarrow> (string \<times> 'v) list" where
  "Object_fromEntries entries = foldl (\<lambda>obj (k, v). AList.update k v obj) [] entries"

definition Object_keys :: "(string \<times> 'v) list \<Rightarrow> string list" where
  "Object_keys obj = map fst obj"

definition Object_values :: "(string \<times> 'v) list \<Rightarrow> 'v list" where
  "Object_values obj = map snd obj"

subsection \<open>State and surroundings\<close>

typedecl SwapV2

record BatchSwap =
  amountTokenOut :: string
  swaps :: "SwapV2 list"
  assets :: "string list"

record InvestState =
  tokenAddresses :: "string list"
  amounts :: "string option list"
  proportionalAmounts :: "string list"
  batchSwap :: "BatchSwap option"

record PropAmounts =
  send :: "string list"
  receive :: "string list"

text \<open>
  The imported services, each with the call the source makes of it:
  \<open>bnum\<close> and \<open>toString\<close> of bignumber.js; \<open>parseUnits\<close> and \<open>BigNumber.from\<close> of
  ethers (integers); the pool calculator (\<open>priceImpact(...).toNumber()\<close>,
  \<open>exactTokensInForBPTOut(...).toString()\<close>, \<open>propAmountsGiven\<close>); \<open>usePool\<close> and
  \<open>useSlippage\<close>; the address of the pool.
\<close>

record InvestEnv = Tokens +
  bnum :: "string \<Rightarrow> BigNumber"
  bn_toString :: "BigNumber \<Rightarrow> string"
  parseUnits :: "string \<Rightarrow> nat \<Rightarrow> error + int"
  BigNumber_from :: "string \<Rightarrow> error + int"
  calc_priceImpact :: "string list \<Rightarrow> error + number"
  calc_exactTokensInForBPTOut :: "string list \<Rightarrow> error + string"
  calc_propAmountsGiven :: "string \<Rightarrow> nat \<Rightarrow> string \<Rightarrow> error + PropAmounts"
  managedPoolWithTradingHalted :: bool
  isPhantomStablePool :: bool
  minusSlippageScaled :: "int \<Rightarrow> int"
  pool_address :: string

subsection \<open>Computed fields\<close>

definition tokenCount :: "InvestState \<Rightarrow> nat" where
  "tokenCount st = length (tokenAddresses st)"

definition poolTokens :: "InvestEnv \<Rightarrow> InvestState \<Rightarrow> TokenInfo option list" where
  "poolTokens env st = map (getToken env) (tokenAddresses st)"

definition fullAmounts :: "InvestState \<Rightarrow> string list" where
  "fullAmounts st =
     map (\<lambda>(_, i). or_default (Option.bind (js_read (amounts st) i) id) ''0'')
       (indexed (replicate (tokenCount st) ''0''))"

text \<open>
  The callbacks below run over \<open>fullAmounts\<close>, whose length is the token count, so their
  reads of \<open>tokenAddresses\<close> and \<open>poolTokens\<close> are in range; an entry of \<open>poolTokens\<close>
  is \<open>undefined\<close> when the registry does not know the address, and reading its
  \<open>decimals\<close> throws.
\<close>

definition fullAmountsScaled :: "InvestEnv \<Rightarrow> InvestState \<Rightarrow> error + int list" where
  "fullAmountsScaled env st =
     map_throwing
       (\<lambda>(amount, i). case poolTokens env st ! i of
                        None \<Rightarrow> Inl TypeError
                      | Some tokenInfo \<Rightarrow> parseUnits env amount (decimals tokenInfo))
       (indexed (fullAmounts st))"

definition batchSwapAmountMap :: "InvestEnv \<Rightarrow> InvestState \<Rightarrow> error + (string \<times> int) list" where
  "batchSwapAmountMap env st =
     (case fullAmountsScaled env st of
        Inl e \<Rightarrow> Inl e
      | Inr scaled \<Rightarrow>
          (let allTokensWithAmounts =
                 map (\<lambda>(amount, i). (toLowerCase (tokenAddresses st ! i), amount)) (indexed scaled);
               onlyTokensWithAmounts = filter (\<lambda>(_, amount). amount > 0) allTokensWithAmounts
           in Inr (Object_fromEntries onlyTokensWithAmounts)))"

definition hasAmounts :: "InvestEnv \<Rightarrow> InvestState \<Rightarrow> bool" where
  "hasAmounts env st = list_ex (\<lambda>amount. bn_gt (bnum env amount) (BFin 0)) (fullAmounts st)"

definition priceImpact :: "InvestEnv \<Rightarrow> InvestState \<Rightarrow> number" where
  "priceImpact env st =
     (if \<not> hasAmounts env st then Finite 0
      else case calc_priceImpact env (fullAmounts st) of
             Inl e \<Rightarrow> Finite 100
           | Inr n \<Rightarrow> if falsy n then Finite 0 else n)"

text \<open>
  The price impact as the specification words it: zero when every entry of \<open>fullAmounts\<close>
  is zero, the calculator's number otherwise. It is compared with \<open>priceImpact\<close> below.
\<close>

definition priceImpact_spec :: "InvestEnv \<Rightarrow> InvestState \<Rightarrow> number" where
  "priceImpact_spec env st =
     (if list_all (\<lambda>amount. bnum env amount = BFin 0) (fullAmounts st) then Finite 0
      else case calc_priceImpact env (fullAmounts st) of
             Inl e \<Rightarrow> Finite 100
           | Inr n \<Rightarrow> if falsy n then Finite 0 else n)"

definition maximized :: "InvestEnv \<Rightarrow> InvestState \<Rightarrow> bool" where
  "maximized env st =
     list_all
       (\<lambda>(amount, i).
          if tokenAddresses st ! i = address (nativeAsset env) then
            (let balance = balanceFor env (tokenAddresses st ! i)
             in amount =
                  bn_toString env
                    (bn_minus (bnum env balance)
                       (bnum env (minTransactionBuffer (nativeAsset env)))))
          else amount = balanceFor env (tokenAddresses st ! i))
       (indexed (fullAmounts st))"

definition bptOut :: "InvestEnv \<Rightarrow> InvestState \<Rightarrow> error + string" where
  "bptOut env st =
     (case (case batchSwap st of
              Some swap \<Rightarrow>
                (case BigNumber_from env (amountTokenOut swap) of
                   Inl e \<Rightarrow> Inl e
                 | Inr v \<Rightarrow> Inr (abs v))
            | None \<Rightarrow>
                (case calc_exactTokensInForBPTOut env (fullAmounts st) of
                   Inl e \<Rightarrow> Inl e
                 | Inr str \<Rightarrow> BigNumber_from env str))
      of Inl e \<Rightarrow> Inl e
       | Inr bptOut' \<Rightarrow>
           if managedPoolWithTradingHalted env then Inr (show_int bptOut')
           else Inr (show_int (minusSlippageScaled env bptOut')))"

text \<open>The pool is an object, so \<open>pool.value\<close> is truthy in \<open>shouldFetchBatchSwap\<close>.\<close>

definition shouldFetchBatchSwap :: "InvestEnv \<Rightarrow> InvestState \<Rightarrow> bool" where
  "shouldFetchBatchSwap env st = (isPhantomStablePool env \<and> hasAmounts env st)"

subsection \<open>Methods and the watcher\<close>

definition maximizeAmounts :: "InvestEnv \<Rightarrow> InvestState \<Rightarrow> InvestState" where
  "maximizeAmounts env st =
     st\<lparr>amounts :=
          foldl
            (\<lambda>amounts' (_, i).
               if tokenAddresses st ! i = address (nativeAsset env) then
                 (let balance = balanceFor env (tokenAddresses st ! i)
                  in js_write amounts' i
                       (if bn_gt (bnum env balance)
                             (bnum env (minTransactionBuffer (nativeAsset env)))
                        then bn_toString env
                               (bn_minus (bnum env balance)
                                  (bnum env (minTransactionBuffer (nativeAsset env))))
                        else ''0''))
               else js_write amounts' i (balanceFor env (tokenAddresses st ! i)))
            (amounts st) (indexed (fullAmounts st))\<rparr>"

text \<open>The string that \<open>maximizeAmounts\<close> writes at index \<open>i\<close>.\<close>

definition maxAmount :: "InvestEnv \<Rightarrow> InvestState \<Rightarrow> nat \<Rightarrow> string" where
  "maxAmount env st i =
     (if tokenAddresses st ! i = address (nativeAsset env) then
        (if bn_gt (bnum env (balanceFor env (tokenAddresses st ! i)))
              (bnum env (minTransactionBuffer (nativeAsset env)))
         then bn_toString env
                (bn_minus (bnum env (balanceFor env (tokenAddresses st ! i)))
                   (bnum env (minTransactionBuffer (nativeAsset env))))
         else ''0'')
      else balanceFor env (tokenAddresses st ! i))"

record BatchSwapQuery =
  q_tokensIn :: "string list"
  q_amountsIn :: "int list"
  q_tokenOut :: string

definition getBatchSwap_query :: "InvestEnv \<Rightarrow> InvestState \<Rightarrow> error + BatchSwapQuery" where
  "getBatchSwap_query env st =
     (case batchSwapAmountMap env st of
        Inl e \<Rightarrow> Inl e
      | Inr m \<Rightarrow>
          Inr \<lparr> q_tokensIn = Object_keys m, q_amountsIn = Object_values m,
                q_tokenOut = toLowerCase (pool_address env) \<rparr>)"

definition getBatchSwap_settled :: "BatchSwap option \<Rightarrow> InvestState \<Rightarrow> InvestState" where
  "getBatchSwap_settled r st = st\<lparr>batchSwap := r\<rparr>"

text \<open>
  The watcher of \<open>fullAmounts\<close> runs with the value the field has now and the value it
  had before. It returns the state it leaves and the batch-swap query it awaits, if any;
  an exception of the calculator or of the query's arguments ends it.
\<close>

definition watch_fullAmounts ::
  "InvestEnv \<Rightarrow> string list \<Rightarrow> InvestState \<Rightarrow> (error + BatchSwapQuery option) \<times> InvestState" where
  "watch_fullAmounts env oldAmounts st =
     (let newAmounts = fullAmounts st;
          changedIndex = findIndex (\<lambda>amount i. js_read oldAmounts i \<noteq> Some amount) newAmounts;
          r = (if changedIndex \<ge> 0 then
                 (case calc_propAmountsGiven env (fullAmounts st ! nat changedIndex)
                         (nat changedIndex) ''send'' of
                    Inl e \<Rightarrow> Inl e
                  | Inr res \<Rightarrow> Inr (st\<lparr>proportionalAmounts := send res\<rparr>))
               else Inr st)
      in case r of
           Inl e \<Rightarrow> (Inl e, st)
         | Inr st' \<Rightarrow>
             if shouldFetchBatchSwap env st' then
               (case getBatchSwap_query env st' of
                  Inl e \<Rightarrow> (Inl e, st')
                | Inr q \<Rightarrow> (Inr (Some q), st'))
             else (Inr None, st'))"

section \<open>A decimal instance of the number library\<close>

text \<open>
  The theorems below hold for every \<open>bnum\<close> and \<open>toString\<close>. To run the model on
  concrete strings, this instance reads and prints plain decimal literals as bignumber.js
  does: an optional minus sign, digits, an optional fractional part (anything else is
  \<open>NaN\<close> here); a number is printed in positional notation, with up to 30 fractional
  digits and no trailing zeros.
\<close>

definition digit_of :: "char \<Rightarrow> int option" where
  "digit_of c = map_of (zip ''0123456789'' [0, 1, 2, 3, 4, 5, 6, 7, 8, 9]) c"

fun digits_value :: "int \<Rightarrow> string \<Rightarrow> int option" where
  "digits_value acc [] = Some acc"
| "digits_value acc (c # cs) =
     (case digit_of c of None \<Rightarrow> None | Some d \<Rightarrow> digits_value (10 * acc + d) cs)"

definition parse_decimal :: "string \<Rightarrow> rat option" where
  "parse_decimal s =
     (let ip = takeWhile (\<lambda>c. c \<noteq> CHR ''.'') s;
          fp = (case dropWhile (\<lambda>c. c \<noteq> CHR ''.'') s of [] \<Rightarrow> [] | dot # f \<Rightarrow> f)
      in if ip = [] \<and> fp = [] then None
         else case (digits_value 0 ip, digits_value 0 fp) of
                (Some a, Some b) \<Rightarrow> Some (of_int a + of_int b / 10 ^ length fp)
              | _ \<Rightarrow> None)"

definition bnum_dec :: "string \<Rightarrow> BigNumber" where
  "bnum_dec s =
     (case s of
        [] \<Rightarrow> BNaN
      | c # r \<Rightarrow>
          if c = CHR ''-'' then (case parse_decimal r of None \<Rightarrow> BNaN | Some v \<Rightarrow> BFin (- v))
          else (case parse_decimal s of None \<Rightarrow> BNaN | Some v \<Rightarrow> BFin v))"

fun frac_digits :: "nat \<Rightarrow> rat \<Rightarrow> string" where
  "frac_digits 0 r = []"
| "frac_digits (Suc n) r =
     (if r = 0 then []
      else digit_char \<lfloor>r * 10\<rfloor> # frac_digits n (r * 10 - of_int \<lfloor>r * 10\<rfloor>))"

fun toString_dec :: "BigNumber \<Rightarrow> string" where
  "toString_dec BNaN = ''NaN''"
| "toString_dec BPosInf = ''Infinity''"
| "toString_dec BNegInf = ''-Infinity''"
| "toString_dec (BFin r) =
     (let a = \<bar>r\<bar>;
          fr = frac_digits 30 (a - of_int \<lfloor>a\<rfloor>)
      in (if r < 0 then ''-'' else []) @ show_digits \<lfloor>a\<rfloor> @ (if fr = [] then [] else CHR ''.'' # fr))"

section \<open>Sample surroundings\<close>



definition sample_registry :: "string \<Rightarrow> TokenInfo option" where
  "sample_registry =
     map_of [(''0xWETH'', \<lparr>symbol = ''WETH'', decimals = 18\<rparr>),
             (''0xDAI'', \<lparr>symbol = ''DAI'', decimals = 18\<rparr>),
             (''0xdai'', \<lparr>symbol = ''DAI'', decimals = 18\<rparr>),
             (''0xETH'', \<lparr>symbol = ''ETH'', decimals = 18\<rparr>)]"

definition sample_native :: NativeAsset where
  "sample_native = \<lparr>address = ''0xETH'', minTransactionBuffer = ''0.05''\<rparr>"






text \<open>
  For the invest form: \<open>parseUnits\<close> and \<open>BigNumber.from\<close> on decimal literals (both
  throw on anything that is not an integer once scaled), a wallet holding 0.01 of the
  native asset and 250.5 DAI, a calculator that returns fixed values, and a slippage of
  one percent.
\<close>

definition parseUnits_dec :: "string \<Rightarrow> nat \<Rightarrow> error + int" where
  "parseUnits_dec s d =
     (case bnum_dec s of
        BFin v \<Rightarrow>
          if v * 10 ^ d = of_int \<lfloor>v * 10 ^ d\<rfloor> then Inr \<lfloor>v * 10 ^ d\<rfloor>
          else Inl (Thrown ''fractional component exceeds decimals'')
      | _ \<Rightarrow> Inl (Thrown ''invalid decimal value''))"

definition BigNumber_from_dec :: "string \<Rightarrow> error + int" where
  "BigNumber_from_dec s =
     (if CHR ''.'' \<in> set s then Inl (Thrown ''invalid BigNumber string'')
      else case bnum_dec s of
             BFin v \<Rightarrow> Inr \<lfloor>v\<rfloor>
           | _ \<Rightarrow> Inl (Thrown ''invalid BigNumber string''))"

definition sample_balances :: "string \<Rightarrow> string" where
  "sample_balances a =
     (if a = ''0xETH'' then ''0.01'' else if a = ''0xDAI'' then ''250.5'' else ''0'')"

definition sample_invest_env :: InvestEnv where
  "sample_invest_env =
     \<lparr> getToken = sample_registry,
       balanceFor = sample_balances,
       nativeAsset = sample_native,
       bnum = bnum_dec,
       bn_toString = toString_dec,
       parseUnits = parseUnits_dec,
       BigNumber_from = BigNumber_from_dec,
       calc_priceImpact = (\<lambda>as. Inr (Finite (1 / 200))),
       calc_exactTokensInForBPTOut = (\<lambda>as. Inr ''1000''),
       calc_propAmountsGiven = (\<lambda>a i ty. Inr \<lparr>send = [a, a], receive = []\<rparr>),
       managedPoolWithTradingHalted = False,
       isPhantomStablePool = False,
       minusSlippageScaled = (\<lambda>x. x - x div 100),
       pool_address = ''0xPOOL'' \<rparr>"

definition invest_state :: "string list \<Rightarrow> string option list \<Rightarrow> InvestState" where
  "invest_state addresses as =
     \<lparr>tokenAddresses = addresses, amounts = as, proportionalAmounts = [], batchSwap = None\<rparr>"

section \<open>Properties of the pool-creation wizard\<close>

subsection \<open>Adding integers as doubles\<close>

text \<open>
  An integer of magnitude at most \<open>2 ^ 53\<close> is a double, so rounding leaves it as it is;
  \<open>2 ^ 53 + 1\<close> lies half way between two doubles and rounds to \<open>2 ^ 53\<close>.
\<close>

lemma exp_up_spec:
  "2 powi e \<le> a \<Longrightarrow> a < 2 powi (e + int n + 1) \<Longrightarrow>
   2 powi (exp_up n e a) \<le> a \<and> a < 2 powi (exp_up n e a + 1)"
proof (induction n arbitrary: e)
  case 0
  then show ?case by simp
next
  case (Suc n)
  show ?case
  proof (cases "2 powi (e + 1) \<le> a")
    case True
    have "a < 2 powi (e + 1 + int n + 1)"
      using Suc.prems(2) by (simp add: add.commute add.left_commute)
    with True have "2 powi (exp_up n (e + 1) a) \<le> a \<and> a < 2 powi (exp_up n (e + 1) a + 1)"
      by (rule Suc.IH)
    with True show ?thesis by simp
  next
    case False
    with Suc.prems(1) show ?thesis by simp
  qed
qed

lemma exponent_spec:
  assumes "1 \<le> a" "a < 2 powi 1024"
  shows "2 powi (exponent a) \<le> a \<and> a < 2 powi (exponent a + 1)"
proof -
  have "(2::rat) powi 0 \<le> a"
    using assms(1) by simp
  moreover have "a < 2 powi (0 + int 1023 + 1)"
    using assms(2) by simp
  ultimately have "2 powi (exp_up 1023 0 a) \<le> a \<and> a < 2 powi (exp_up 1023 0 a + 1)"
    by (rule exp_up_spec)
  then show ?thesis
    using assms(1) by (simp add: exponent_def)
qed

lemma exponent_unique:
  assumes "1 \<le> a" "a < 2 powi 1024" "2 powi e \<le> a" "a < 2 powi (e + 1)"
  shows "exponent a = e"
proof -
  let ?x = "exponent a"
  have x: "2 powi ?x \<le> a" "a < 2 powi (?x + 1)"
    using exponent_spec [OF assms(1,2)] by simp_all
  have "\<not> ?x + 1 \<le> e"
  proof
    assume "?x + 1 \<le> e"
    then have "(2::rat) powi (?x + 1) \<le> 2 powi e"
      by (intro power_int_increasing) simp_all
    with x(2) assms(3) show False by simp
  qed
  moreover have "\<not> e + 1 \<le> ?x"
  proof
    assume "e + 1 \<le> ?x"
    then have "(2::rat) powi (e + 1) \<le> 2 powi ?x"
      by (intro power_int_increasing) simp_all
    with x(1) assms(4) show False by simp
  qed
  ultimately show ?thesis by simp
qed

lemma round_ties_even_of_int [simp]: "round_ties_even (of_int j) = j"
  by (simp add: round_ties_even_def)

lemma pow53_less: "(2::rat) ^ 53 < 2 powi 1024"
proof -
  have "(2::rat) powi 53 < 2 powi 1024"
    by (intro power_int_strict_increasing) simp_all
  then show ?thesis by simp
qed

lemma to_double_of_int:
  assumes "\<bar>z\<bar> \<le> 2 ^ 53"
  shows "to_double (of_int z) = Finite (of_int z)"
proof (cases "z = 0")
  case True
  then show ?thesis by (simp add: to_double_def)
next
  case False
  define a :: rat where "a = \<bar>of_int z\<bar>"
  define e where "e = exponent a"
  define u :: rat where "u = 2 powi (e - 52)"
  have a_int: "a = of_int \<bar>z\<bar>"
    by (simp add: a_def)
  have a1: "1 \<le> a"
  proof -
    have "1 \<le> \<bar>z\<bar>"
      using False by simp
    then have "(of_int 1 :: rat) \<le> of_int \<bar>z\<bar>"
      by (rule of_int_le_iff [THEN iffD2])
    then show ?thesis
      by (simp add: a_def)
  qed
  have a53: "a \<le> 2 ^ 53"
    using assms unfolding a_int by (metis of_int_le_iff of_int_numeral of_int_power)
  have a1024: "a < 2 powi 1024"
    using a53 pow53_less by simp
  have spec: "2 powi e \<le> a" "a < 2 powi (e + 1)"
    using exponent_spec [OF a1 a1024] by (simp_all add: e_def)
  have e0: "0 \<le> e"
  proof (rule ccontr)
    assume "\<not> 0 \<le> e"
    then have "e + 1 \<le> 0" by simp
    then have "(2::rat) powi (e + 1) \<le> 2 powi 0"
      by (intro power_int_increasing) simp_all
    with spec(2) a1 show False by simp
  qed
  have e53: "e \<le> 53"
  proof (rule ccontr)
    assume "\<not> e \<le> 53"
    then have "54 \<le> e" by simp
    then have "(2::rat) powi 54 \<le> 2 powi e"
      by (intro power_int_increasing) simp_all
    with spec(1) a53 show False by simp
  qed
  have u0: "u \<noteq> 0"
    by (simp add: u_def)
  have "\<exists>j::int. a / u = of_int j"
  proof (cases "e \<le> 52")
    case True
    have "u = 2 powi (- (52 - e))"
      by (simp add: u_def)
    also have "\<dots> = 1 / 2 powi (52 - e)"
      by (rule power_int_minus_divide)
    also have "\<dots> = 1 / 2 ^ nat (52 - e)"
      using True by (simp add: power_int_nonneg_exp)
    finally have "a / u = of_int (\<bar>z\<bar> * 2 ^ nat (52 - e))"
      by (simp add: a_int)
    then show ?thesis ..
  next
    case False
    with e53 have e: "e = 53" by simp
    with spec(1) a53 have "a = 2 ^ 53" by simp
    moreover have "u = 2"
      by (simp add: u_def e)
    ultimately have "a / u = of_int (2 ^ 52)"
      by simp
    then show ?thesis ..
  qed
  then obtain j :: int where j: "a / u = of_int j" ..
  then have m: "of_int (round_ties_even (a / u)) * u = a"
    using u0 by (simp add: field_simps)
  have pos: "0 < (of_int z :: rat) \<Longrightarrow> a = of_int z" and neg: "\<not> 0 < (of_int z :: rat) \<Longrightarrow> - a = of_int z"
    by (simp_all add: a_def)
  have "to_double (of_int z) =
          (if 2 powi 1024 \<le> a then (if 0 < (of_int z :: rat) then PosInfinity else NegInfinity)
           else Finite (if 0 < (of_int z :: rat) then a else - a))"
    using False m by (simp add: to_double_def Let_def a_def [symmetric] e_def [symmetric] u_def [symmetric])
  also have "\<dots> = Finite (of_int z)"
    using a1024 pos neg by (simp del: of_int_abs)
  finally show ?thesis .
qed

lemma to_double_tie: "to_double 9007199254740993 = Finite 9007199254740992"
proof -
  have e: "exponent 9007199254740993 = 53"
    by (rule exponent_unique) simp_all
  have f: "\<lfloor>(9007199254740993 :: rat) / 2\<rfloor> = 4503599627370496"
    by (rule floor_unique) simp_all
  have q: "(9007199254740993 :: rat) / 2 - of_int \<lfloor>(9007199254740993 :: rat) / 2\<rfloor> = 1 / 2"
    unfolding f by simp
  have "round_ties_even (9007199254740993 / 2) = 4503599627370496"
    unfolding round_ties_even_def q f by simp
  then show ?thesis
    by (simp add: to_double_def e Let_def)
qed

subsection \<open>The step counter\<close>

text \<open>
  C6, as the code has it. For every pool-creation state whose \<open>activeStep\<close> is an integer
  \<open>k\<close> with \<open>-2^53 \<le> k < 2^53\<close>, \<open>proceed\<close> increases \<open>activeStep\<close> by exactly 1;
  for every state, \<open>proceed\<close> leaves every other field unchanged. The claim as written,
  for every state, fails where adding 1 to a JavaScript number does not change it: see
  \<open>proceed_beyond_safe_integers\<close>.
\<close>

theorem proceed_frame:
  "(activeStep s = Finite (of_int k) \<and> - (2 ^ 53) \<le> k \<and> k < 2 ^ 53 \<longrightarrow>
      activeStep (proceed s) = Finite (of_int (k + 1)))
   \<and> name (proceed s) = name s
   \<and> tokenWeights (proceed s) = tokenWeights s
   \<and> initialFee (proceed s) = initialFee s
   \<and> isFeeGovManaged (proceed s) = isFeeGovManaged s
   \<and> feeManagementType (proceed s) = feeManagementType s
   \<and> feeType (proceed s) = feeType s
   \<and> feeController (proceed s) = feeController s
   \<and> thirdPartyFeeController (proceed s) = thirdPartyFeeController s
   \<and> fee (proceed s) = fee s
   \<and> tokensList (proceed s) = tokensList s
   \<and> poolId (proceed s) = poolId s
   \<and> poolAddress (proceed s) = poolAddress s
   \<and> createState (proceed s) = createState s
   \<and> joinState (proceed s) = joinState s"
proof -
  have "activeStep (proceed s) = Finite (of_int (k + 1))"
    if "activeStep s = Finite (of_int k)" "- (2 ^ 53) \<le> k" "k < 2 ^ 53"
  proof -
    have "\<bar>k + 1\<bar> \<le> 2 ^ 53"
      using that(2,3) by simp
    then have "to_double (of_int (k + 1)) = Finite (of_int (k + 1))"
      by (rule to_double_of_int)
    moreover have "activeStep (proceed s) = to_double (of_int k + 1)"
      using that(1) by (simp add: proceed_def)
    ultimately show ?thesis
      by simp
  qed
  then show ?thesis
    by (simp add: proceed_def)
qed

theorem proceed_frame_witness:
  "activeStep (proceed poolCreationState) = Finite 1
   \<and> name (proceed poolCreationState) = ''MyPool''
   \<and> createState (proceed poolCreationState) = ''none''
   \<and> activeStep (proceed (poolCreationState\<lparr>activeStep := Finite 9007199254740991\<rparr>))
       = Finite 9007199254740992"
proof -
  let ?big = "poolCreationState\<lparr>activeStep := Finite 9007199254740991\<rparr>"
  have "activeStep poolCreationState = Finite (of_int 0)"
    by (simp add: poolCreationState_def)
  then have "activeStep (proceed poolCreationState) = Finite 1"
    using proceed_frame [of poolCreationState 0] by simp
  moreover have "name (proceed poolCreationState) = ''MyPool''"
    "createState (proceed poolCreationState) = ''none''"
    using proceed_frame [of poolCreationState 0] by (simp_all add: poolCreationState_def)
  moreover have "activeStep ?big = Finite (of_int 9007199254740991)"
    by simp
  then have "activeStep (proceed ?big) = Finite 9007199254740992"
    using proceed_frame [of ?big 9007199254740991] by simp
  ultimately show ?thesis by blast
qed

theorem proceed_beyond_safe_integers:
  "activeStep (proceed (poolCreationState\<lparr>activeStep := Finite 9007199254740992\<rparr>))
     = Finite 9007199254740992
   \<and> activeStep (proceed (poolCreationState\<lparr>activeStep := Finite 9007199254740992\<rparr>))
       \<noteq> Finite (9007199254740992 + 1)
   \<and> activeStep (proceed (poolCreationState\<lparr>activeStep := NaN\<rparr>)) = NaN"
  by (simp add: proceed_def to_double_tie)

text \<open>
  C8. For every argument \<open>n\<close> (an integer or any other number), \<open>setStep n\<close> sets
  \<open>activeStep\<close> to 0, whatever \<open>n\<close> is, and leaves every other field of the state
  unchanged.
\<close>

theorem setStep_ignores_argument:
  "activeStep (setStep n s) = Finite 0
   \<and> name (setStep n s) = name s
   \<and> tokenWeights (setStep n s) = tokenWeights s
   \<and> initialFee (setStep n s) = initialFee s
   \<and> isFeeGovManaged (setStep n s) = isFeeGovManaged s
   \<and> feeManagementType (setStep n s) = feeManagementType s
   \<and> feeType (setStep n s) = feeType s
   \<and> feeController (setStep n s) = feeController s
   \<and> thirdPartyFeeController (setStep n s) = thirdPartyFeeController s
   \<and> fee (setStep n s) = fee s
   \<and> tokensList (setStep n s) = tokensList s
   \<and> poolId (setStep n s) = poolId s
   \<and> poolAddress (setStep n s) = poolAddress s
   \<and> createState (setStep n s) = createState s
   \<and> joinState (setStep n s) = joinState s
   \<and> setStep n s = s\<lparr>activeStep := Finite 0\<rparr>"
  by (simp add: setStep_def)

theorem setStep_ignores_argument_witness:
  "activeStep (setStep (Finite 3) (proceed poolCreationState)) = Finite 0
   \<and> name (setStep (Finite 3) (proceed poolCreationState)) = ''MyPool''
   \<and> setStep (Finite 3) (proceed poolCreationState) = poolCreationState"
  using setStep_ignores_argument [of "Finite 3" "proceed poolCreationState"]
  by (simp add: poolCreationState_def proceed_def)

subsection \<open>Creating and joining\<close>




lemmas wizard_defs =
  watch_tokenWeights_def updateTokenWeights_def proceed_def setFeeManagement_def setFeeType_def
  setStep_def setFeeController_def setTrpController_def sortTokenWeights_def
  createPool_submit_def createPool_submitted_def createPool_onTxConfirmed_def
  createPool_onTxFailed_def joinPool_submit_def joinPool_submitted_def
  joinPool_onTxConfirmed_def joinPool_onTxFailed_def

text \<open>
  The values the two state fields take in the states of the wizard. \<open>createState\<close> stays
  within its declared type; \<open>joinState\<close> ranges over \<open>'none'\<close>, \<open>'joining'\<close>,
  \<open>'joined'\<close> and \<open>'failed'\<close>.
\<close>

lemma reachable_createState:
  "reachable env s \<Longrightarrow> createState s \<in> set CreateState"
  by (induction rule: reachable.induct)
     (simp_all add: wizard_defs poolCreationState_def CreateState_def Let_def split: sum.split)

lemma reachable_joinState:
  "reachable env s \<Longrightarrow> joinState s \<in> {''none'', ''joining'', ''joined'', ''failed''}"
  by (induction rule: reachable.induct)
     (simp_all add: wizard_defs poolCreationState_def Let_def split: sum.split)

text \<open>
  C10. The claim is that \<open>joinState\<close> always holds one of the four values its declared type
  \<open>JoinState\<close> lists (\<open>'non'\<close>, \<open>'joining'\<close>, \<open>'joined'\<close>, \<open>'failed'\<close>). The module
  initialises the field to \<open>'none'\<close>, which the declared type does not list.
\<close>

theorem joinState_initial_outside_JoinState:
  "joinState poolCreationState = ''none'' \<and> joinState poolCreationState \<notin> set JoinState"
  by (simp add: poolCreationState_def JoinState_def)

section \<open>Properties of the invest form\<close>

lemma length_indexed [simp]: "length (indexed xs) = length xs"
  by (simp add: indexed_def)

lemma nth_indexed [simp]: "i < length xs \<Longrightarrow> indexed xs ! i = (xs ! i, i)"
  by (simp add: indexed_def)

lemma length_fullAmounts [simp]: "length (fullAmounts st) = length (tokenAddresses st)"
  by (simp add: fullAmounts_def tokenCount_def)

lemma nth_fullAmounts:
  "i < length (tokenAddresses st) \<Longrightarrow>
   fullAmounts st ! i = or_default (Option.bind (js_read (amounts st) i) id) ''0''"
  by (simp add: fullAmounts_def tokenCount_def)

lemma findIndexFrom_none:
  "(\<forall>j < length xs. \<not> p (xs ! j) (k + j)) \<Longrightarrow> findIndexFrom k p xs = - 1"
proof (induction xs arbitrary: k)
  case Nil
  then show ?case by simp
next
  case (Cons x xs)
  have head: "\<not> p x k"
    using Cons.prems [rule_format, of 0] by simp
  have "\<forall>j < length xs. \<not> p (xs ! j) (Suc k + j)"
  proof (intro allI impI)
    fix j assume "j < length xs"
    then show "\<not> p (xs ! j) (Suc k + j)"
      using Cons.prems [rule_format, of "Suc j"] by simp
  qed
  then have "findIndexFrom (Suc k) p xs = - 1"
    by (rule Cons.IH)
  with head show ?case by simp
qed

lemma findIndexFrom_first:
  "i < length xs \<Longrightarrow> p (xs ! i) (k + i) \<Longrightarrow> (\<forall>j < i. \<not> p (xs ! j) (k + j)) \<Longrightarrow>
   findIndexFrom k p xs = int (k + i)"
proof (induction xs arbitrary: k i)
  case Nil
  then show ?case by simp
next
  case (Cons x xs)
  show ?case
  proof (cases i)
    case 0
    with Cons.prems show ?thesis by simp
  next
    case (Suc i')
    have head: "\<not> p x k"
      using Cons.prems(3) [rule_format, of 0] Suc by simp
    have rest: "\<forall>j < i'. \<not> p (xs ! j) (Suc k + j)"
    proof (intro allI impI)
      fix j assume "j < i'"
      then show "\<not> p (xs ! j) (Suc k + j)"
        using Cons.prems(3) [rule_format, of "Suc j"] Suc by simp
    qed
    have "i' < length xs" "p (xs ! i') (Suc k + i')"
      using Cons.prems(1,2) Suc by simp_all
    then have "findIndexFrom (Suc k) p xs = int (Suc k + i')"
      using rest by (rule Cons.IH)
    with head Suc show ?thesis by simp
  qed
qed

lemma map_throwing_length:
  "map_throwing f xs = Inr ys \<Longrightarrow> length ys = length xs"
  by (induction xs arbitrary: ys) (auto split: sum.splits)

lemma map_throwing_nth:
  "map_throwing f xs = Inr ys \<Longrightarrow> i < length xs \<Longrightarrow> f (xs ! i) = Inr (ys ! i)"
proof (induction xs arbitrary: ys i)
  case Nil
  then show ?case by simp
next
  case (Cons x xs)
  then show ?case
    by (cases i) (auto split: sum.splits)
qed

lemma map_of_foldl_update:
  "map_of (foldl (\<lambda>obj (k, v). AList.update k v obj) acc es) = map_of acc ++ map_of (rev es)"
proof (induction es arbitrary: acc)
  case Nil
  then show ?case by simp
next
  case (Cons e es)
  obtain k v where e: "e = (k, v)" by (cases e)
  have "map_of (foldl (\<lambda>obj (k, v). AList.update k v obj) acc (e # es))
          = map_of (AList.update k v acc) ++ map_of (rev es)"
    by (simp add: e Cons.IH)
  also have "\<dots> = (map_of acc)(k \<mapsto> v) ++ map_of (rev es)"
    by (simp add: update_conv')
  also have "\<dots> = map_of acc ++ map_of (rev (e # es))"
    by (simp add: e map_add_def fun_eq_iff split: option.splits)
  finally show ?case .
qed

lemma keys_foldl_update:
  "fst ` set (foldl (\<lambda>obj (k, v). AList.update k v obj) acc es) = fst ` set acc \<union> fst ` set es"
proof (induction es arbitrary: acc)
  case Nil
  then show ?case by simp
next
  case (Cons e es)
  obtain k v where e: "e = (k, v)" by (cases e)
  show ?case
    by (auto simp: e Cons.IH dom_update)
qed

lemma keys_Object_fromEntries:
  "set (Object_keys (Object_fromEntries es)) = fst ` set es"
  by (simp add: Object_keys_def Object_fromEntries_def keys_foldl_update)

lemma map_of_Object_fromEntries:
  assumes "distinct (map fst es)"
  shows "map_of (Object_fromEntries es) = map_of es"
proof -
  have "map_of (rev es) = map_of es"
    using assms by (subst map_of_inject_set) (simp_all add: rev_map [symmetric])
  then show ?thesis
    by (simp add: Object_fromEntries_def map_of_foldl_update)
qed

text \<open>
  C7. For every token-address list and every input amounts list (possibly shorter, possibly
  with missing or empty entries), \<open>fullAmounts\<close> has as many entries as there are token
  addresses; its \<open>i\<close>-th entry is \<open>amounts[i]\<close> when that entry is present and not empty
  and \<open>'0'\<close> otherwise; and reading \<open>fullAmounts\<close> at an index below the token count
  never gives \<open>undefined\<close>.
\<close>

theorem fullAmounts_total:
  "length (fullAmounts st) = length (tokenAddresses st)
   \<and> (\<forall>i < length (tokenAddresses st).
        fullAmounts st ! i =
          (if i < length (amounts st) \<and> amounts st ! i \<noteq> None \<and> amounts st ! i \<noteq> Some []
           then the (amounts st ! i) else ''0'')
        \<and> js_read (fullAmounts st) i \<noteq> None)"
proof (intro conjI allI impI)
  show "length (fullAmounts st) = length (tokenAddresses st)"
    by simp
next
  fix i assume i: "i < length (tokenAddresses st)"
  show "fullAmounts st ! i =
          (if i < length (amounts st) \<and> amounts st ! i \<noteq> None \<and> amounts st ! i \<noteq> Some []
           then the (amounts st ! i) else ''0'')"
    using i by (auto simp: nth_fullAmounts js_read_def or_default_def split: option.splits)
  show "js_read (fullAmounts st) i \<noteq> None"
    using i by (simp add: js_read_def)
qed

theorem fullAmounts_total_witness:
  "length (fullAmounts \<lparr>tokenAddresses = [''0xA'', ''0xB'', ''0xC'', ''0xD''],
                         amounts = [Some ''1.5'', None, Some []],
                         proportionalAmounts = [], batchSwap = None\<rparr>) = 4
   \<and> fullAmounts \<lparr>tokenAddresses = [''0xA'', ''0xB'', ''0xC'', ''0xD''],
                   amounts = [Some ''1.5'', None, Some []],
                   proportionalAmounts = [], batchSwap = None\<rparr>
       = [''1.5'', ''0'', ''0'', ''0'']"
proof -
  let ?st = "\<lparr>tokenAddresses = [''0xA'', ''0xB'', ''0xC'', ''0xD''],
              amounts = [Some ''1.5'', None, Some []],
              proportionalAmounts = [], batchSwap = None\<rparr>"
  note t = fullAmounts_total [of ?st]
  have len: "length (fullAmounts ?st) = 4"
    using t by simp
  have "fullAmounts ?st ! 0 = ''1.5''" "fullAmounts ?st ! 1 = ''0''"
       "fullAmounts ?st ! 2 = ''0''" "fullAmounts ?st ! 3 = ''0''"
    using t by simp_all
  then have "fullAmounts ?st = [''1.5'', ''0'', ''0'', ''0'']"
    using len by (intro nth_equalityI) (auto simp: less_Suc_eq numeral_eq_Suc)
  then show ?thesis using len by simp
qed

text \<open>
  C1, as the code has it. The price impact is 0 when no entry of \<open>fullAmounts\<close> is a
  number strictly greater than zero (in particular when every entry is zero); otherwise it
  is the number the calculator returns, with 0 in place of a falsy one, and 100 when the
  calculator throws. The claim as written, with "every entry is zero" as the guard, fails
  on a negative entry: see \<open>priceImpact_negative_amount\<close>.
\<close>

theorem priceImpact_delegates:
  "((\<forall>amount \<in> set (fullAmounts st). \<not> bn_gt (bnum env amount) (BFin 0)) \<longrightarrow>
      priceImpact env st = Finite 0)
   \<and> ((\<forall>amount \<in> set (fullAmounts st). bnum env amount = BFin 0) \<longrightarrow>
      priceImpact env st = Finite 0)
   \<and> ((\<exists>amount \<in> set (fullAmounts st). bn_gt (bnum env amount) (BFin 0)) \<longrightarrow>
      priceImpact env st =
        (case calc_priceImpact env (fullAmounts st) of
           Inl e \<Rightarrow> Finite 100
         | Inr n \<Rightarrow> if falsy n then Finite 0 else n))"
proof (intro conjI impI)
  assume "\<forall>amount \<in> set (fullAmounts st). \<not> bn_gt (bnum env amount) (BFin 0)"
  then show "priceImpact env st = Finite 0"
    by (simp add: priceImpact_def hasAmounts_def list_ex_iff)
next
  assume "\<forall>amount \<in> set (fullAmounts st). bnum env amount = BFin 0"
  then have "\<forall>amount \<in> set (fullAmounts st). \<not> bn_gt (bnum env amount) (BFin 0)"
    by simp
  then show "priceImpact env st = Finite 0"
    by (simp add: priceImpact_def hasAmounts_def list_ex_iff)
next
  assume "\<exists>amount \<in> set (fullAmounts st). bn_gt (bnum env amount) (BFin 0)"
  then have "hasAmounts env st"
    by (simp add: hasAmounts_def list_ex_iff)
  then show "priceImpact env st =
        (case calc_priceImpact env (fullAmounts st) of
           Inl e \<Rightarrow> Finite 100
         | Inr n \<Rightarrow> if falsy n then Finite 0 else n)"
    by (simp add: priceImpact_def)
qed

theorem priceImpact_delegates_witness:
  "priceImpact sample_invest_env (invest_state [''0xDAI'', ''0xWETH''] [Some ''0'']) = Finite 0
   \<and> priceImpact sample_invest_env (invest_state [''0xDAI'', ''0xWETH''] [Some ''0'', Some ''2.5''])
       = Finite (1 / 200)
   \<and> priceImpact (sample_invest_env\<lparr>calc_priceImpact := \<lambda>as. Inl (Thrown ''no liquidity'')\<rparr>)
        (invest_state [''0xDAI'', ''0xWETH''] [Some ''0'', Some ''2.5'']) = Finite 100
   \<and> priceImpact (sample_invest_env\<lparr>calc_priceImpact := \<lambda>as. Inr NaN\<rparr>)
        (invest_state [''0xDAI'', ''0xWETH''] [Some ''0'', Some ''2.5'']) = Finite 0"
proof -
  let ?zero = "invest_state [''0xDAI'', ''0xWETH''] [Some ''0'']"
  let ?some = "invest_state [''0xDAI'', ''0xWETH''] [Some ''0'', Some ''2.5'']"
  let ?throwing = "sample_invest_env\<lparr>calc_priceImpact := \<lambda>as. Inl (Thrown ''no liquidity'')\<rparr>"
  let ?nan = "sample_invest_env\<lparr>calc_priceImpact := \<lambda>as. Inr NaN\<rparr>"
  have fz: "fullAmounts ?zero = [''0'', ''0'']" and fs: "fullAmounts ?some = [''0'', ''2.5'']"
    by code_simp+
  have z: "bnum_dec ''0'' = BFin 0" and p: "bnum_dec ''2.5'' = BFin (5 / 2)"
    by code_simp+
  have "priceImpact sample_invest_env ?zero = Finite 0"
    using priceImpact_delegates [of ?zero sample_invest_env] fz z
    by (simp add: sample_invest_env_def)
  moreover have "priceImpact sample_invest_env ?some = Finite (1 / 200)"
    using priceImpact_delegates [of ?some sample_invest_env] fs p
    by (simp add: sample_invest_env_def)
  moreover have "priceImpact ?throwing ?some = Finite 100"
    using priceImpact_delegates [of ?some ?throwing] fs p
    by (simp add: sample_invest_env_def)
  moreover have "priceImpact ?nan ?some = Finite 0"
    using priceImpact_delegates [of ?some ?nan] fs p
    by (simp add: sample_invest_env_def)
  ultimately show ?thesis by blast
qed

theorem priceImpact_negative_amount:
  "fullAmounts (invest_state [''0xDAI''] [Some ''-1'']) = [''-1'']
   \<and> bnum sample_invest_env ''-1'' = BFin (- 1)
   \<and> calc_priceImpact sample_invest_env [''-1''] = Inr (Finite (1 / 200))
   \<and> priceImpact_spec sample_invest_env (invest_state [''0xDAI''] [Some ''-1'']) = Finite (1 / 200)
   \<and> priceImpact sample_invest_env (invest_state [''0xDAI''] [Some ''-1'']) = Finite 0
   \<and> priceImpact sample_invest_env (invest_state [''0xDAI''] [Some ''-1''])
       \<noteq> priceImpact_spec sample_invest_env (invest_state [''0xDAI''] [Some ''-1''])"
proof -
  let ?st = "invest_state [''0xDAI''] [Some ''-1'']"
  have full: "fullAmounts ?st = [''-1'']"
    by code_simp
  have parsed: "bnum_dec ''-1'' = BFin (- 1)"
    by code_simp
  have code: "priceImpact sample_invest_env ?st = Finite 0"
    by (simp add: priceImpact_def hasAmounts_def full parsed sample_invest_env_def)
  have spec: "priceImpact_spec sample_invest_env ?st = Finite (1 / 200)"
    by (simp add: priceImpact_spec_def full parsed sample_invest_env_def)
  show ?thesis
    using full parsed code spec by (simp add: sample_invest_env_def)
qed

text \<open>
  C2. \<open>bptOut\<close> starts from the absolute value of \<open>batchSwap.amountTokenOut\<close> when a
  batch swap result is present and from the calculator's
  \<open>exactTokensInForBPTOut(fullAmounts)\<close> otherwise. In both cases the slippage is taken
  off with \<open>minusSlippageScaled\<close>, except for a managed pool with trading halted, where
  the value is returned as it is. The result is the decimal text of that integer.
\<close>

theorem bptOut_sources:
  "(batchSwap st = Some swap \<and> BigNumber_from env (amountTokenOut swap) = Inr v \<longrightarrow>
      bptOut env st =
        Inr (show_int (if managedPoolWithTradingHalted env then \<bar>v\<bar>
                       else minusSlippageScaled env \<bar>v\<bar>)))
   \<and> (batchSwap st = None \<and> calc_exactTokensInForBPTOut env (fullAmounts st) = Inr str
        \<and> BigNumber_from env str = Inr v \<longrightarrow>
      bptOut env st =
        Inr (show_int (if managedPoolWithTradingHalted env then v
                       else minusSlippageScaled env v)))"
  by (simp add: bptOut_def)

theorem bptOut_sources_witness:
  "bptOut sample_invest_env
     ((invest_state [''0xDAI''] [Some ''1''])
        \<lparr>batchSwap := Some \<lparr>amountTokenOut = ''-2000'', swaps = [], assets = []\<rparr>\<rparr>) = Inr ''1980''
   \<and> bptOut (sample_invest_env\<lparr>managedPoolWithTradingHalted := True\<rparr>)
     ((invest_state [''0xDAI''] [Some ''1''])
        \<lparr>batchSwap := Some \<lparr>amountTokenOut = ''-2000'', swaps = [], assets = []\<rparr>\<rparr>) = Inr ''2000''
   \<and> bptOut sample_invest_env (invest_state [''0xDAI''] [Some ''1'']) = Inr ''990''
   \<and> bptOut (sample_invest_env\<lparr>managedPoolWithTradingHalted := True\<rparr>)
        (invest_state [''0xDAI''] [Some ''1'']) = Inr ''1000''"
proof -
  let ?swap = "\<lparr>amountTokenOut = ''-2000'', swaps = [], assets = []\<rparr> :: BatchSwap"
  let ?plain = "invest_state [''0xDAI''] [Some ''1'']"
  let ?swapped = "?plain\<lparr>batchSwap := Some ?swap\<rparr>"
  let ?halted = "sample_invest_env\<lparr>managedPoolWithTradingHalted := True\<rparr>"
  have from_swap: "BigNumber_from_dec ''-2000'' = Inr (- 2000)"
    and from_calc: "BigNumber_from_dec ''1000'' = Inr 1000"
    by code_simp+
  have s1980: "show_int 1980 = ''1980''" and s2000: "show_int 2000 = ''2000''"
    and s990: "show_int 990 = ''990''" and s1000: "show_int 1000 = ''1000''"
    by code_simp+
  have "bptOut sample_invest_env ?swapped = Inr ''1980''"
    using bptOut_sources [of ?swapped ?swap sample_invest_env "- 2000" "''1000''"] from_swap s1980
    by (simp add: sample_invest_env_def invest_state_def)
  moreover have "bptOut ?halted ?swapped = Inr ''2000''"
    using bptOut_sources [of ?swapped ?swap ?halted "- 2000" "''1000''"] from_swap s2000
    by (simp add: sample_invest_env_def invest_state_def)
  moreover have "bptOut sample_invest_env ?plain = Inr ''990''"
    using bptOut_sources [of ?plain ?swap sample_invest_env 1000 "''1000''"] from_calc s990
    by (simp add: sample_invest_env_def invest_state_def)
  moreover have "bptOut ?halted ?plain = Inr ''1000''"
    using bptOut_sources [of ?plain ?swap ?halted 1000 "''1000''"] from_calc s1000
    by (simp add: sample_invest_env_def invest_state_def)
  ultimately show ?thesis by blast
qed

text \<open>
  C4. When the watcher of \<open>fullAmounts\<close> runs, \<open>proportionalAmounts\<close> is replaced by
  the \<open>send\<close> amounts that the calculator's \<open>propAmountsGiven\<close> returns for the first
  index whose value differs from the old one (called with the new amount at that index, the
  index, and \<open>'send'\<close>); when no index of the new list differs, \<open>proportionalAmounts\<close>
  keeps its value.
\<close>

theorem watch_fullAmounts_proportional:
  "((\<forall>i < length (fullAmounts st). js_read oldAmounts i = Some (fullAmounts st ! i)) \<longrightarrow>
      proportionalAmounts (snd (watch_fullAmounts env oldAmounts st)) = proportionalAmounts st)
   \<and> (i < length (fullAmounts st) \<and> js_read oldAmounts i \<noteq> Some (fullAmounts st ! i)
        \<and> (\<forall>j < i. js_read oldAmounts j = Some (fullAmounts st ! j))
        \<and> calc_propAmountsGiven env (fullAmounts st ! i) i ''send'' = Inr res \<longrightarrow>
      proportionalAmounts (snd (watch_fullAmounts env oldAmounts st)) = send res)"
proof (intro conjI impI)
  let ?changed = "\<lambda>amount i. js_read oldAmounts i \<noteq> Some amount"
  assume "\<forall>i < length (fullAmounts st). js_read oldAmounts i = Some (fullAmounts st ! i)"
  then have "\<forall>j < length (fullAmounts st). \<not> ?changed (fullAmounts st ! j) (0 + j)"
    by simp
  then have "findIndex ?changed (fullAmounts st) = - 1"
    unfolding findIndex_def by (rule findIndexFrom_none)
  then show "proportionalAmounts (snd (watch_fullAmounts env oldAmounts st)) = proportionalAmounts st"
    by (simp add: watch_fullAmounts_def split: sum.split)
next
  let ?changed = "\<lambda>amount i. js_read oldAmounts i \<noteq> Some amount"
  assume a: "i < length (fullAmounts st) \<and> js_read oldAmounts i \<noteq> Some (fullAmounts st ! i)
        \<and> (\<forall>j < i. js_read oldAmounts j = Some (fullAmounts st ! j))
        \<and> calc_propAmountsGiven env (fullAmounts st ! i) i ''send'' = Inr res"
  then have "i < length (fullAmounts st)" "?changed (fullAmounts st ! i) (0 + i)"
    "\<forall>j < i. \<not> ?changed (fullAmounts st ! j) (0 + j)"
    by simp_all
  then have "findIndexFrom 0 ?changed (fullAmounts st) = int (0 + i)"
    by (rule findIndexFrom_first)
  then have "findIndex ?changed (fullAmounts st) = int i"
    by (simp add: findIndex_def)
  then show "proportionalAmounts (snd (watch_fullAmounts env oldAmounts st)) = send res"
    using a by (simp add: watch_fullAmounts_def split: sum.split)
qed

theorem watch_fullAmounts_proportional_witness:
  "proportionalAmounts
     (snd (watch_fullAmounts sample_invest_env [''1'', ''0'']
             ((invest_state [''0xDAI'', ''0xWETH''] [Some ''1'', Some ''0.5''])
                \<lparr>proportionalAmounts := [''7'', ''8'']\<rparr>))) = [''0.5'', ''0.5'']
   \<and> proportionalAmounts
     (snd (watch_fullAmounts sample_invest_env [''1'', ''0.5'']
             ((invest_state [''0xDAI'', ''0xWETH''] [Some ''1'', Some ''0.5''])
                \<lparr>proportionalAmounts := [''7'', ''8'']\<rparr>))) = [''7'', ''8'']"
proof -
  let ?st = "(invest_state [''0xDAI'', ''0xWETH''] [Some ''1'', Some ''0.5''])
               \<lparr>proportionalAmounts := [''7'', ''8'']\<rparr>"
  let ?res = "\<lparr>send = [''0.5'', ''0.5''], receive = []\<rparr>"
  have full: "fullAmounts ?st = [''1'', ''0.5'']"
    by code_simp
  have same: "\<forall>i < length (fullAmounts ?st). js_read [''1'', ''0.5''] i = Some (fullAmounts ?st ! i)"
    by (auto simp: full js_read_def less_Suc_eq)
  have first: "1 < length (fullAmounts ?st)
        \<and> js_read [''1'', ''0''] 1 \<noteq> Some (fullAmounts ?st ! 1)
        \<and> (\<forall>j < 1. js_read [''1'', ''0''] j = Some (fullAmounts ?st ! j))
        \<and> calc_propAmountsGiven sample_invest_env (fullAmounts ?st ! 1) 1 ''send'' = Inr ?res"
    by (simp add: full js_read_def sample_invest_env_def)
  have "proportionalAmounts (snd (watch_fullAmounts sample_invest_env [''1'', ''0''] ?st))
          = [''0.5'', ''0.5'']"
    using watch_fullAmounts_proportional
            [where st = ?st and oldAmounts = "[''1'', ''0'']" and i = 1
               and env = sample_invest_env and res = ?res] first
    by simp
  moreover have "proportionalAmounts (snd (watch_fullAmounts sample_invest_env [''1'', ''0.5''] ?st))
          = [''7'', ''8'']"
    using watch_fullAmounts_proportional
            [where st = ?st and oldAmounts = "[''1'', ''0.5'']" and i = 1
               and env = sample_invest_env and res = ?res] same
    by (simp add: invest_state_def)
  ultimately show ?thesis by blast
qed

text \<open>
  C5, as the code has it. When the lower-cased token addresses are pairwise distinct and the
  scaled amounts could be computed, then for every index \<open>i\<close> into the token addresses
  the lower-cased address \<open>tokenAddresses[i]\<close> is a key of \<open>batchSwapAmountMap\<close> if and
  only if \<open>fullAmountsScaled[i]\<close> is strictly greater than zero, and then it maps to
  exactly that amount. Without distinctness the claim fails: two addresses with the same
  lower-case form share one key, see \<open>batchSwapAmountMap_shared_key\<close>.
\<close>

theorem batchSwapAmountMap_keys:
  assumes scaled: "fullAmountsScaled env st = Inr scaled"
    and dist: "distinct (map toLowerCase (tokenAddresses st))"
  shows "\<exists>m. batchSwapAmountMap env st = Inr m
           \<and> (\<forall>i < length (tokenAddresses st).
                 (toLowerCase (tokenAddresses st ! i) \<in> set (Object_keys m) \<longleftrightarrow> scaled ! i > 0)
                 \<and> (scaled ! i > 0 \<longrightarrow>
                      map_of m (toLowerCase (tokenAddresses st ! i)) = Some (scaled ! i)))"
proof -
  let ?ta = "tokenAddresses st"
  let ?all = "map (\<lambda>(amount, i). (toLowerCase (?ta ! i), amount)) (indexed scaled)"
  let ?only = "filter (\<lambda>(_, amount). amount > 0) ?all"
  let ?m = "Object_fromEntries ?only"
  have len: "length scaled = length ?ta"
    using map_throwing_length [OF scaled [unfolded fullAmountsScaled_def]] by simp
  have keys_all: "map fst ?all = map toLowerCase ?ta"
    by (rule nth_equalityI) (simp_all add: len)
  have dist_all: "distinct (map fst ?all)"
    using dist by (simp only: keys_all)
  have dist_only: "distinct (map fst ?only)"
    using dist_all by (rule distinct_map_filter)
  have m: "batchSwapAmountMap env st = Inr ?m"
    by (simp add: batchSwapAmountMap_def scaled)
  have entry: "(toLowerCase (?ta ! i), scaled ! i) \<in> set ?all" if "i < length ?ta" for i
  proof -
    have "?all ! i = (toLowerCase (?ta ! i), scaled ! i)"
      using that by (simp add: len)
    moreover have "i < length ?all"
      using that by (simp add: len)
    ultimately show ?thesis
      by (metis nth_mem)
  qed
  have unique: "v = v'" if "(k, v) \<in> set ?all" "(k, v') \<in> set ?all" for k v v'
    using that dist_all by (meson eq_key_imp_eq_value)
  have "(toLowerCase (?ta ! i) \<in> set (Object_keys ?m) \<longleftrightarrow> scaled ! i > 0)
        \<and> (scaled ! i > 0 \<longrightarrow> map_of ?m (toLowerCase (?ta ! i)) = Some (scaled ! i))"
    if i: "i < length ?ta" for i
  proof (intro conjI impI iffI)
    assume "toLowerCase (?ta ! i) \<in> set (Object_keys ?m)"
    then have "toLowerCase (?ta ! i) \<in> fst ` set ?only"
      by (simp only: keys_Object_fromEntries)
    then obtain e where "toLowerCase (?ta ! i) = fst e" "e \<in> set ?only"
      by (rule imageE)
    then obtain v where v: "(toLowerCase (?ta ! i), v) \<in> set ?only"
      by (cases e) simp
    then have "v > 0" and "(toLowerCase (?ta ! i), v) \<in> set ?all"
      by simp_all
    with unique [OF _ entry [OF i]] show "scaled ! i > 0"
      by blast
  next
    assume "scaled ! i > 0"
    with entry [OF i] have "(toLowerCase (?ta ! i), scaled ! i) \<in> set ?only"
      by simp
    then show "toLowerCase (?ta ! i) \<in> set (Object_keys ?m)"
      unfolding keys_Object_fromEntries by (rule image_eqI [rotated]) simp
  next
    assume "scaled ! i > 0"
    with entry [OF i] have "(toLowerCase (?ta ! i), scaled ! i) \<in> set ?only"
      by simp
    with dist_only have "map_of ?only (toLowerCase (?ta ! i)) = Some (scaled ! i)"
      by (rule map_of_is_SomeI)
    then show "map_of ?m (toLowerCase (?ta ! i)) = Some (scaled ! i)"
      by (simp only: map_of_Object_fromEntries [OF dist_only])
  qed
  with m show ?thesis
    by blast
qed

theorem batchSwapAmountMap_keys_witness:
  "\<exists>m. batchSwapAmountMap sample_invest_env
          (invest_state [''0xDAI'', ''0xWETH''] [Some ''1'', Some ''0'']) = Inr m
        \<and> ''0xdai'' \<in> set (Object_keys m)
        \<and> ''0xweth'' \<notin> set (Object_keys m)
        \<and> map_of m ''0xdai'' = Some 1000000000000000000"
proof -
  let ?st = "invest_state [''0xDAI'', ''0xWETH''] [Some ''1'', Some ''0'']"
  have scaled: "fullAmountsScaled sample_invest_env ?st = Inr [1000000000000000000, 0]"
    by code_simp
  have lower: "toLowerCase ''0xDAI'' = ''0xdai''" "toLowerCase ''0xWETH'' = ''0xweth''"
    by code_simp+
  have dist: "distinct (map toLowerCase (tokenAddresses ?st))"
    by (simp add: invest_state_def lower)
  from batchSwapAmountMap_keys [OF scaled dist]
  obtain m where m: "batchSwapAmountMap sample_invest_env ?st = Inr m"
    and keys: "\<forall>i < length (tokenAddresses ?st).
                 (toLowerCase (tokenAddresses ?st ! i) \<in> set (Object_keys m)
                    \<longleftrightarrow> [1000000000000000000, 0] ! i > (0::int))
                 \<and> ([1000000000000000000, 0] ! i > (0::int) \<longrightarrow>
                      map_of m (toLowerCase (tokenAddresses ?st ! i))
                        = Some ([1000000000000000000, 0] ! i))"
    by blast
  have "''0xdai'' \<in> set (Object_keys m)" "map_of m ''0xdai'' = Some 1000000000000000000"
    using keys [rule_format, of 0] by (simp_all add: invest_state_def lower)
  moreover have "''0xweth'' \<notin> set (Object_keys m)"
    using keys [rule_format, of 1] by (simp add: invest_state_def lower)
  ultimately show ?thesis
    using m by blast
qed

theorem batchSwapAmountMap_shared_key:
  "fullAmountsScaled sample_invest_env
     (invest_state [''0xDAI'', ''0xdai''] [Some ''1'', Some ''0''])
     = Inr [1000000000000000000, 0]
   \<and> batchSwapAmountMap sample_invest_env
       (invest_state [''0xDAI'', ''0xdai''] [Some ''1'', Some ''0''])
     = Inr [(''0xdai'', 1000000000000000000)]
   \<and> toLowerCase (tokenAddresses (invest_state [''0xDAI'', ''0xdai''] [Some ''1'', Some ''0'']) ! 1)
       \<in> set (Object_keys [(''0xdai'', 1000000000000000000 :: int)])
   \<and> \<not> [1000000000000000000, 0] ! 1 > (0 :: int)"
proof -
  let ?st = "invest_state [''0xDAI'', ''0xdai''] [Some ''1'', Some ''0'']"
  have scaled: "fullAmountsScaled sample_invest_env ?st = Inr [1000000000000000000, 0]"
    by code_simp
  have m: "batchSwapAmountMap sample_invest_env ?st = Inr [(''0xdai'', 1000000000000000000)]"
    by code_simp
  have key: "toLowerCase (tokenAddresses ?st ! 1) = ''0xdai''"
    by code_simp
  show ?thesis
    using scaled m key by (simp add: Object_keys_def)
qed

lemma foldl_indexed:
  "foldl (\<lambda>a (x, i). F a i) a0 (indexed xs) = foldl F a0 [0..<length xs]"
proof -
  have "foldl F a0 (map snd (indexed xs)) = foldl (\<lambda>a (x, i). F a i) a0 (indexed xs)"
    by (simp add: foldl_map split_def)
  moreover have "map snd (indexed xs) = [0..<length xs]"
    by (simp add: indexed_def)
  ultimately show ?thesis by simp
qed

lemma list_all_indexed:
  "list_all (\<lambda>(x, i). P x i) (indexed xs) = (\<forall>i < length xs. P (xs ! i) i)"
proof
  assume all: "list_all (\<lambda>(x, i). P x i) (indexed xs)"
  show "\<forall>i < length xs. P (xs ! i) i"
  proof (intro allI impI)
    fix i assume i: "i < length xs"
    then have "indexed xs ! i \<in> set (indexed xs)"
      by (intro nth_mem) simp
    then have "(xs ! i, i) \<in> set (indexed xs)"
      using i by simp
    with all show "P (xs ! i) i"
      by (auto simp: list_all_iff)
  qed
next
  assume all: "\<forall>i < length xs. P (xs ! i) i"
  show "list_all (\<lambda>(x, i). P x i) (indexed xs)"
    unfolding list_all_iff
  proof
    fix e assume "e \<in> set (indexed xs)"
    then obtain k where "k < length (indexed xs)" "e = indexed xs ! k"
      by (auto simp: in_set_conv_nth)
    then have "k < length xs" "e = (xs ! k, k)"
      by simp_all
    with all show "case e of (x, i) \<Rightarrow> P x i"
      by simp
  qed
qed

lemma js_write_same: "js_read (js_write xs i v) i = Some (Some v)"
  by (simp add: js_read_def js_write_def nth_append)

lemma js_write_below:
  "j < i \<Longrightarrow> js_read xs j = Some (Some w) \<Longrightarrow> js_read (js_write xs i v) j = Some (Some w)"
  by (auto simp: js_read_def js_write_def nth_append split: if_splits)

lemma foldl_js_write:
  "j < n \<Longrightarrow> js_read (foldl (\<lambda>am i. js_write am i (g i)) am0 [0..<n]) j = Some (Some (g j))"
proof (induction n)
  case 0
  then show ?case by simp
next
  case (Suc n)
  show ?case
  proof (cases "j = n")
    case True
    then show ?thesis by (simp add: js_write_same)
  next
    case False
    with Suc.prems have "j < n" by simp
    then show ?thesis
      by (simp add: js_write_below Suc.IH)
  qed
qed

lemma amounts_maximizeAmounts:
  "amounts (maximizeAmounts env st)
     = foldl (\<lambda>am i. js_write am i (maxAmount env st i)) (amounts st) [0..<length (tokenAddresses st)]"
proof -
  have "(\<lambda>amounts' (_, i).
               if tokenAddresses st ! i = address (nativeAsset env) then
                 (let balance = balanceFor env (tokenAddresses st ! i)
                  in js_write amounts' i
                       (if bn_gt (bnum env balance)
                             (bnum env (minTransactionBuffer (nativeAsset env)))
                        then bn_toString env
                               (bn_minus (bnum env balance)
                                  (bnum env (minTransactionBuffer (nativeAsset env))))
                        else ''0''))
               else js_write amounts' i (balanceFor env (tokenAddresses st ! i)))
        = (\<lambda>am (x :: string, i). js_write am i (maxAmount env st i))"
    by (intro ext) (simp add: maxAmount_def Let_def split_def)
  then show ?thesis
    by (simp add: maximizeAmounts_def foldl_indexed)
qed

lemma tokenAddresses_maximizeAmounts [simp]:
  "tokenAddresses (maximizeAmounts env st) = tokenAddresses st"
  by (simp add: maximizeAmounts_def)

lemma fullAmounts_maximizeAmounts:
  assumes "i < length (tokenAddresses st)"
  shows "fullAmounts (maximizeAmounts env st) ! i = or_default (Some (maxAmount env st i)) ''0''"
proof -
  have "js_read (amounts (maximizeAmounts env st)) i = Some (Some (maxAmount env st i))"
    using assms by (simp add: amounts_maximizeAmounts foldl_js_write)
  then show ?thesis
    using assms by (simp add: nth_fullAmounts)
qed

text \<open>
  When \<open>maximized\<close> holds right after \<open>maximizeAmounts\<close>: exactly when every balance
  string is non-empty and, for the native asset, the balance exceeds the amount held back
  (or the difference prints as \<open>'0'\<close>).
\<close>

lemma maximized_after_maximizeAmounts_iff:
  "maximized env (maximizeAmounts env st) \<longleftrightarrow>
     (\<forall>i < length (tokenAddresses st).
        if tokenAddresses st ! i = address (nativeAsset env) then
          (if bn_gt (bnum env (balanceFor env (tokenAddresses st ! i)))
                (bnum env (minTransactionBuffer (nativeAsset env)))
           then bn_toString env
                  (bn_minus (bnum env (balanceFor env (tokenAddresses st ! i)))
                     (bnum env (minTransactionBuffer (nativeAsset env)))) \<noteq> []
           else bn_toString env
                  (bn_minus (bnum env (balanceFor env (tokenAddresses st ! i)))
                     (bnum env (minTransactionBuffer (nativeAsset env)))) = ''0'')
        else balanceFor env (tokenAddresses st ! i) \<noteq> [])"
proof -
  have "maximized env (maximizeAmounts env st) \<longleftrightarrow>
     (\<forall>i < length (tokenAddresses st).
        if tokenAddresses st ! i = address (nativeAsset env) then
          or_default (Some (maxAmount env st i)) ''0'' =
            bn_toString env
              (bn_minus (bnum env (balanceFor env (tokenAddresses st ! i)))
                 (bnum env (minTransactionBuffer (nativeAsset env))))
        else or_default (Some (maxAmount env st i)) ''0'' = balanceFor env (tokenAddresses st ! i))"
    by (simp add: maximized_def list_all_indexed fullAmounts_maximizeAmounts Let_def
          cong: if_cong)
  also have "\<dots> \<longleftrightarrow>
     (\<forall>i < length (tokenAddresses st).
        if tokenAddresses st ! i = address (nativeAsset env) then
          (if bn_gt (bnum env (balanceFor env (tokenAddresses st ! i)))
                (bnum env (minTransactionBuffer (nativeAsset env)))
           then bn_toString env
                  (bn_minus (bnum env (balanceFor env (tokenAddresses st ! i)))
                     (bnum env (minTransactionBuffer (nativeAsset env)))) \<noteq> []
           else bn_toString env
                  (bn_minus (bnum env (balanceFor env (tokenAddresses st ! i)))
                     (bnum env (minTransactionBuffer (nativeAsset env)))) = ''0'')
        else balanceFor env (tokenAddresses st ! i) \<noteq> [])"
    by (intro all_cong1 imp_cong refl) (auto simp: maxAmount_def or_default_def)
  finally show ?thesis .
qed

text \<open>
  C9. The claim is that \<open>maximized\<close> is true right after \<open>maximizeAmounts\<close>. For the
  native asset \<open>maximizeAmounts\<close> writes \<open>'0'\<close> when the balance does not exceed the
  amount held back for gas, while \<open>maximized\<close> compares with the balance minus that amount
  whatever its sign. With a balance of 0.01 and 0.05 held back, \<open>maximizeAmounts\<close> writes
  \<open>'0'\<close>, \<open>maximized\<close> expects \<open>'-0.04'\<close>, and the field is false.
\<close>

theorem maximized_false_after_maximizeAmounts:
  "amounts (maximizeAmounts sample_invest_env (invest_state [''0xETH'', ''0xDAI''] []))
     = [Some ''0'', Some ''250.5'']
   \<and> fullAmounts (maximizeAmounts sample_invest_env (invest_state [''0xETH'', ''0xDAI''] []))
     = [''0'', ''250.5'']
   \<and> bn_toString sample_invest_env
       (bn_minus (bnum sample_invest_env (balanceFor sample_invest_env ''0xETH''))
          (bnum sample_invest_env (minTransactionBuffer (nativeAsset sample_invest_env))))
     = ''-0.04''
   \<and> \<not> maximized sample_invest_env
         (maximizeAmounts sample_invest_env (invest_state [''0xETH'', ''0xDAI''] []))"
proof -
  let ?st = "maximizeAmounts sample_invest_env (invest_state [''0xETH'', ''0xDAI''] [])"
  have written: "amounts ?st = [Some ''0'', Some ''250.5'']"
    by code_simp
  have full: "fullAmounts ?st = [''0'', ''250.5'']"
    by code_simp
  have expected: "bn_toString sample_invest_env
       (bn_minus (bnum sample_invest_env (balanceFor sample_invest_env ''0xETH''))
          (bnum sample_invest_env (minTransactionBuffer (nativeAsset sample_invest_env))))
     = ''-0.04''"
    by code_simp
  have "\<not> maximized sample_invest_env ?st"
    by code_simp
  with written full expected show ?thesis
    by blast
qed

end
